theory Spec2Isabelle
  imports Complex_Main
begin

section \<open>Values shared by the two services\<close>

text \<open>
  The repository is two small Python services. The inspection service
  (\<^verbatim>\<open>satellite_qa_agent/satellite_qa_agent.py\<close> and \<^verbatim>\<open>satellite_qa_agent/main.py\<close>)
  sends an image reference to a hosted model and relays its JSON verdict; the upload
  front end (\<^verbatim>\<open>satellite_qa_agent_app/main.py\<close>) stores uploaded files and calls the
  inspection service once per file.

  Python values that come out of \<^verbatim>\<open>json.loads\<close> are modelled by the datatype below. A
  dict is an association list read with \<open>map_of\<close>. A JSON number without fraction or
  exponent becomes a Python \<^verbatim>\<open>int\<close>, of any size; every other number becomes a
  \<^verbatim>\<open>float\<close>, which is a finite double or one of the three non-finite values
  (\<^verbatim>\<open>json.loads\<close> gives them for \<^verbatim>\<open>1e400\<close>, \<^verbatim>\<open>-Infinity\<close> and \<^verbatim>\<open>NaN\<close>). A finite
  double is given by its real value; that the reals which occur are doubles is not
  needed below.
\<close>

type_synonym bytes = string

datatype pyfloat = Finite real | PosInf | NegInf | NaN

datatype json =
    JNull
  | JBool bool
  | JInt int
  | JFloat pyfloat
  | JStr string
  | JList "json list"
  | JDict "(string \<times> json) list"

text \<open>
  Exceptions are values. \<open>str_exn\<close> is Python's \<^verbatim>\<open>str(e)\<close>. Only subclasses of
  \<^verbatim>\<open>Exception\<close> are modelled, which is what \<^verbatim>\<open>except Exception\<close> catches.
\<close>

datatype exn =
    FileNotFoundError string
  | ValidationError string
  | Exception string

fun str_exn :: "exn \<Rightarrow> string" where
  "str_exn (FileNotFoundError m) = m"
| "str_exn (ValidationError m) = m"
| "str_exn (Exception m) = m"

subsection \<open>Python numbers and equality\<close>

text \<open>
  \<^verbatim>\<open>float(n)\<close> for an \<^verbatim>\<open>int\<close>: the nearest double, ties to the even mantissa, and
  \<^verbatim>\<open>OverflowError\<close> when that is beyond the largest double. \<open>ulp_shift m\<close> is the
  number of low bits that a 53-bit mantissa cannot hold.
\<close>

function ulp_shift :: "nat \<Rightarrow> nat" where
  "ulp_shift m = (if m < 2 ^ 53 then 0 else Suc (ulp_shift (m div 2)))"
  by pat_completeness auto
termination
  by (relation "measure id") auto

declare ulp_shift.simps [simp del]

definition round_half_even :: "nat \<Rightarrow> nat \<Rightarrow> nat" where
  "round_half_even m s =
     (let q = m div 2 ^ s; r = m mod 2 ^ s;
          q' = (if 2 ^ s < 2 * r \<or> (2 * r = 2 ^ s \<and> odd q) then q + 1 else q)
      in q' * 2 ^ s)"

definition float_of_int :: "int \<Rightarrow> exn + pyfloat" where
  "float_of_int n =
     (let m = nat \<bar>n\<bar>; v = round_half_even m (ulp_shift m)
      in if 2 ^ 1024 \<le> v then Inl (Exception ''int too large to convert to float'')
         else Inr (Finite (if n < 0 then - real v else real v)))"

text \<open>
  Python's \<^verbatim>\<open>==\<close> on these values. Numbers compare by value across \<^verbatim>\<open>bool\<close>,
  \<^verbatim>\<open>int\<close> and \<^verbatim>\<open>float\<close>, exactly, and \<^verbatim>\<open>NaN\<close> equals nothing; lists compare
  element by element; dicts are equal when they have the same keys with equal values,
  in whatever order the keys stand.
\<close>

definition num_of :: "json \<Rightarrow> pyfloat option" where
  "num_of j =
     (case j of
        JBool b \<Rightarrow> Some (Finite (if b then 1 else 0))
      | JInt n \<Rightarrow> Some (Finite (of_int n))
      | JFloat f \<Rightarrow> Some f
      | _ \<Rightarrow> None)"

function (sequential) py_eq :: "json \<Rightarrow> json \<Rightarrow> bool" where
  "py_eq JNull JNull = True"
| "py_eq (JStr s) (JStr t) = (s = t)"
| "py_eq (JList xs) (JList ys) =
     (length xs = length ys \<and> (\<forall>i < length xs. py_eq (xs ! i) (ys ! i)))"
| "py_eq (JDict a) (JDict b) =
     (set (map fst a) = set (map fst b) \<and>
      (\<forall>k \<in> set (map fst a). py_eq (the (map_of a k)) (the (map_of b k))))"
| "py_eq x y =
     (case (num_of x, num_of y) of
        (Some u, Some v) \<Rightarrow> u = v \<and> u \<noteq> NaN
      | _ \<Rightarrow> False)"
  by pat_completeness auto
termination
proof (relation "measure (\<lambda>(x, y). size x)")
  show "wf (measure (\<lambda>(x, y). size x))" by simp
next
  fix xs ys :: "json list" and i
  assume "i < length xs"
  then have "xs ! i \<in> set xs" by (rule nth_mem)
  then have "size (xs ! i) \<le> size_list size xs"
    by (rule size_list_estimation') (rule order_refl)
  then show "((xs ! i, ys ! i), (JList xs, JList ys)) \<in> measure (\<lambda>(x, y). size x)"
    by simp
next
  fix a b :: "(string \<times> json) list" and k
  assume "k \<in> set (map fst a)"
  then obtain v where v: "map_of a k = Some v"
    by (metis map_of_eq_None_iff not_Some_eq set_map)
  then have "(k, v) \<in> set a" by (rule map_of_SomeD)
  then have "size_prod (\<lambda>x. 0) size (k, v) \<le> size_list (size_prod (\<lambda>x. 0) size) a"
    by (rule size_list_estimation') (rule order_refl)
  with v show "((the (map_of a k), the (map_of b k)), (JDict a, JDict b)) \<in>
      measure (\<lambda>(x, y). size x)"
    by simp
qed

definition NL :: string where
  "NL = [CHR 0x0A]"

subsection \<open>The request sent to the hosted model\<close>

text \<open>
  \<^verbatim>\<open>Part.from_uri(uri=..., mime_type=...)\<close> and \<^verbatim>\<open>Part.from_data(data=..., mime_type=...)\<close>
  build the image part; \<^verbatim>\<open>generate_content\<close> receives a list of strings and parts, a
  generation config and the safety settings.
\<close>

datatype part =
    FromUri string string
  | FromData bytes string

datatype content = Text string | ImagePart part

datatype model_cls = IssueAssessment_cls | SatelliteAnalysis_cls

record generation_config =
  response_mime_type :: string
  response_schema :: json

record SafetySetting =
  category :: string
  threshold :: string

record model_request =
  model_name :: string
  contents :: "content list"
  config :: generation_config
  safety_settings :: "SafetySetting list"

record requests_response =
  resp_status :: nat
  resp_text :: string

subsection \<open>The outside world\<close>

text \<open>
  Every call that leaves the process is recorded, in the order it is issued, in a trace
  of events; the trace is the state that the functions below pass along. What the outside
  answers is given by the fields of an environment, each a function of the trace so far
  and of the call's arguments. Library functions whose code is not part of the repository
  (\<^verbatim>\<open>json.loads\<close>, \<^verbatim>\<open>json.dumps(..., indent=2)\<close>, \<^verbatim>\<open>model_json_schema\<close>, the
  \<^verbatim>\<open>public_url\<close> of a blob, and the conversions that the validation library applies to
  a value whose Python type is not the declared one) are fields of the environment too.
\<close>

datatype event =
    EvFileRead string
  | EvModelCall model_request
  | EvUuid4 string
  | EvBlobUpload string string bytes string
  | EvMakePublic string string
  | EvHttpPost string json

type_synonym world = "event list"

datatype fs_entry = Missing | Readable bytes | OpenFails exn

record env =
  fs_entry_at :: "world \<Rightarrow> string \<Rightarrow> fs_entry"
  model_reply :: "world \<Rightarrow> model_request \<Rightarrow> exn + string"
  json_loads :: "string \<Rightarrow> exn + json"
  json_dumps :: "json \<Rightarrow> string"
  model_json_schema :: "model_cls \<Rightarrow> json"
  lax_bool :: "json \<Rightarrow> exn + bool"
  lax_float :: "json \<Rightarrow> exn + pyfloat"
  lax_str :: "json \<Rightarrow> exn + string"
  uuid4_draw :: "world \<Rightarrow> string"
  gcs_upload :: "world \<Rightarrow> string \<Rightarrow> string \<Rightarrow> bytes \<Rightarrow> string \<Rightarrow> exn + unit"
  gcs_make_public :: "world \<Rightarrow> string \<Rightarrow> string \<Rightarrow> exn + unit"
  gcs_public_url :: "string \<Rightarrow> string \<Rightarrow> string"
  http_post :: "world \<Rightarrow> string \<Rightarrow> json \<Rightarrow> exn + requests_response"

section \<open>The inspection service\<close>

subsection \<open>The output schema\<close>

text \<open>
  \<^verbatim>\<open>
  class IssueAssessment(BaseModel):
      detected: bool = Field(..., description="Whether this specific issue is present.")
      confidence: float = Field(..., description="Confidence score between 0.0 and 1.0.")
      reason: str = Field(..., description="A concise explanation of the visual evidence found.")

  class SatelliteAnalysis(BaseModel):
      has_clouds: IssueAssessment
      has_snow: IssueAssessment
      has_color_issues: IssueAssessment
      has_other_issues: IssueAssessment
  \<close>
  All seven fields are required and none carries a constraint: \<^verbatim>\<open>Field\<close> is given a
  description only.
\<close>

record IssueAssessment =
  detected :: bool
  confidence :: pyfloat
  reason :: string

record SatelliteAnalysis =
  has_clouds :: IssueAssessment
  has_snow :: IssueAssessment
  has_color_issues :: IssueAssessment
  has_other_issues :: IssueAssessment

text \<open>
  Validation of a Python value against the two classes. A field of the declared type is
  taken as it is, and an \<^verbatim>\<open>int\<close> given for the float field is converted with
  \<^verbatim>\<open>float(n)\<close>, a validation error when that overflows; for a value of another type the
  library's conversion, a field of the environment, decides. A value that is not a dict, or a dict without one of the required
  keys, is a validation error; keys that the class does not declare are ignored. Which
  error is reported when several fields fail is not observed by any caller, so the first
  one stands for all.
\<close>

definition validate_bool :: "env \<Rightarrow> json \<Rightarrow> exn + bool" where
  "validate_bool env j = (case j of JBool b \<Rightarrow> Inr b | _ \<Rightarrow> lax_bool env j)"

definition validate_float :: "env \<Rightarrow> json \<Rightarrow> exn + pyfloat" where
  "validate_float env j =
     (case j of
        JFloat f \<Rightarrow> Inr f
      | JInt n \<Rightarrow>
          (case float_of_int n of
             Inl e \<Rightarrow> Inl (ValidationError ''Input should be a valid number'')
           | Inr f \<Rightarrow> Inr f)
      | _ \<Rightarrow> lax_float env j)"

definition validate_str :: "env \<Rightarrow> json \<Rightarrow> exn + string" where
  "validate_str env j = (case j of JStr s \<Rightarrow> Inr s | _ \<Rightarrow> lax_str env j)"

definition field_required :: "exn" where
  "field_required = ValidationError ''Field required''"

definition IssueAssessment_validate :: "env \<Rightarrow> json \<Rightarrow> exn + IssueAssessment" where
  "IssueAssessment_validate env j =
     (case j of
        JDict kvs \<Rightarrow>
          (case (map_of kvs ''detected'', map_of kvs ''confidence'', map_of kvs ''reason'') of
             (Some d, Some c, Some r) \<Rightarrow>
               (case validate_bool env d of
                  Inl e \<Rightarrow> Inl e
                | Inr b \<Rightarrow>
                    (case validate_float env c of
                       Inl e \<Rightarrow> Inl e
                     | Inr x \<Rightarrow>
                         (case validate_str env r of
                            Inl e \<Rightarrow> Inl e
                          | Inr s \<Rightarrow> Inr \<lparr>detected = b, confidence = x, reason = s\<rparr>)))
           | _ \<Rightarrow> Inl field_required)
      | _ \<Rightarrow> Inl (ValidationError ''Input should be a valid dictionary''))"

definition SatelliteAnalysis_validate :: "env \<Rightarrow> json \<Rightarrow> exn + SatelliteAnalysis" where
  "SatelliteAnalysis_validate env j =
     (case j of
        JDict kvs \<Rightarrow>
          (case (map_of kvs ''has_clouds'', map_of kvs ''has_snow'',
                 map_of kvs ''has_color_issues'', map_of kvs ''has_other_issues'') of
             (Some c, Some s, Some k, Some t) \<Rightarrow>
               (case IssueAssessment_validate env c of
                  Inl e \<Rightarrow> Inl e
                | Inr c' \<Rightarrow>
                    (case IssueAssessment_validate env s of
                       Inl e \<Rightarrow> Inl e
                     | Inr s' \<Rightarrow>
                         (case IssueAssessment_validate env k of
                            Inl e \<Rightarrow> Inl e
                          | Inr k' \<Rightarrow>
                              (case IssueAssessment_validate env t of
                                 Inl e \<Rightarrow> Inl e
                               | Inr t' \<Rightarrow>
                                   Inr \<lparr>has_clouds = c', has_snow = s',
                                        has_color_issues = k', has_other_issues = t'\<rparr>))))
           | _ \<Rightarrow> Inl field_required)
      | _ \<Rightarrow> Inl (ValidationError ''Input should be a valid dictionary''))"

text \<open>
  The two classes as Python dicts (\<^verbatim>\<open>model_dump()\<close>): the declared fields, in the
  declared order, with the values the object holds.
\<close>

definition IssueAssessment_as_dict :: "IssueAssessment \<Rightarrow> json" where
  "IssueAssessment_as_dict a =
     JDict [(''detected'', JBool (detected a)),
            (''confidence'', JFloat (confidence a)),
            (''reason'', JStr (reason a))]"

definition SatelliteAnalysis_as_dict :: "SatelliteAnalysis \<Rightarrow> json" where
  "SatelliteAnalysis_as_dict s =
     JDict [(''has_clouds'', IssueAssessment_as_dict (has_clouds s)),
            (''has_snow'', IssueAssessment_as_dict (has_snow s)),
            (''has_color_issues'', IssueAssessment_as_dict (has_color_issues s)),
            (''has_other_issues'', IssueAssessment_as_dict (has_other_issues s))]"

text \<open>
  Serialisation of the two classes for a JSON response: the same dicts, except that a
  float which is not finite is written as \<^verbatim>\<open>null\<close>.
\<close>

definition float_to_json :: "pyfloat \<Rightarrow> json" where
  "float_to_json f = (case f of Finite r \<Rightarrow> JFloat (Finite r) | _ \<Rightarrow> JNull)"

definition IssueAssessment_dump :: "IssueAssessment \<Rightarrow> json" where
  "IssueAssessment_dump a =
     JDict [(''detected'', JBool (detected a)),
            (''confidence'', float_to_json (confidence a)),
            (''reason'', JStr (reason a))]"

definition SatelliteAnalysis_dump :: "SatelliteAnalysis \<Rightarrow> json" where
  "SatelliteAnalysis_dump s =
     JDict [(''has_clouds'', IssueAssessment_dump (has_clouds s)),
            (''has_snow'', IssueAssessment_dump (has_snow s)),
            (''has_color_issues'', IssueAssessment_dump (has_color_issues s)),
            (''has_other_issues'', IssueAssessment_dump (has_other_issues s))]"

subsection \<open>The agent class\<close>

definition SYSTEM_INSTRUCTION :: string where
  "SYSTEM_INSTRUCTION =
     '''' @ NL @
     ''        You are an expert Remote Sensing Analyst AI. '' @ NL @
     ''        Your job is to analyze satellite imagery (optical/RGB) and detect quality issues.'' @ NL @
     ''        '' @ NL @
     ''        Definitions for your analysis:'' @ NL @
     ''        1. CLOUDS: Look for white, puffy, opaque textures that obscure the ground. Distinguish from smoke or haze if possible.'' @ NL @
     ''        2. SNOW: Look for white, smooth textures on terrain, specifically on mountain peaks or covering large flat areas. Distinguish from clouds by looking for ground features (valleys, rivers) cut into the white.'' @ NL @
     ''        3. COLOR ISSUES: Look for unnatural color casts (e.g., whole image is purple/green), oversaturation, banding (colored stripes), or severe atmospheric haze that washes out color.'' @ NL @
     ''        4. OTHER ISSUES: Look for missing data (black pixels/voids), severe blurriness, stitching artifacts, or digital noise.'' @ NL @
     ''        '' @ NL @
     ''        Provide a confidence score (0.0 to 1.0) and specific visual reasoning for every assessment.'' @ NL @
     ''        ''"

record SatelliteInspector =
  project_id :: string
  location :: string
  model :: string
  system_instruction :: string

text \<open>
  \<^verbatim>\<open>__init__(self, project_id, location="us-central1")\<close>: the SDK initialisation and the
  construction of the model handle issue no call; the object keeps the model's name.
\<close>

definition SatelliteInspector_init :: "string \<Rightarrow> string \<Rightarrow> SatelliteInspector" where
  "SatelliteInspector_init pid loc =
     \<lparr>project_id = pid, location = loc, model = ''gemini-2.5-flash'',
      system_instruction = SYSTEM_INSTRUCTION\<rparr>"

text \<open>
  \<^verbatim>\<open>_generate(self, image_part)\<close>: one call of \<^verbatim>\<open>generate_content\<close>; the result is
  \<^verbatim>\<open>response.text\<close>, or whatever the call or that attribute raises.
\<close>

definition generate ::
  "env \<Rightarrow> SatelliteInspector \<Rightarrow> world \<Rightarrow> part \<Rightarrow> (exn + string) \<times> world" where
  "generate env self w image_part =
     (let generation_config =
            \<lparr>response_mime_type = ''application/json'',
             response_schema = model_json_schema env SatelliteAnalysis_cls\<rparr>;
          req =
            \<lparr>model_name = model self,
             contents = [Text (system_instruction self), ImagePart image_part,
                         Text ''Analyze this satellite image for issues.''],
             config = generation_config,
             safety_settings =
               [\<lparr>category = ''HARM_CATEGORY_DANGEROUS_CONTENT'',
                 threshold = ''BLOCK_ONLY_HIGH''\<rparr>]\<rparr>
      in (model_reply env w req, w @ [EvModelCall req]))"

definition analyze_from_uri ::
  "env \<Rightarrow> SatelliteInspector \<Rightarrow> world \<Rightarrow> string \<Rightarrow> string \<Rightarrow> (exn + string) \<times> world" where
  "analyze_from_uri env self w gcs_uri mime_type =
     (let image_part = FromUri gcs_uri mime_type in generate env self w image_part)"

text \<open>
  \<^verbatim>\<open>os.path.exists\<close> and \<^verbatim>\<open>open(image_path, "rb").read()\<close>. A path can exist and
  still not open (a directory, a file without read permission).
\<close>

definition os_path_exists :: "env \<Rightarrow> world \<Rightarrow> string \<Rightarrow> bool" where
  "os_path_exists env w p = (fs_entry_at env w p \<noteq> Missing)"

definition open_read :: "env \<Rightarrow> world \<Rightarrow> string \<Rightarrow> (exn + bytes) \<times> world" where
  "open_read env w p =
     ((case fs_entry_at env w p of
         Missing \<Rightarrow> Inl (FileNotFoundError (''[Errno 2] No such file or directory: '' @ p))
       | Readable b \<Rightarrow> Inr b
       | OpenFails e \<Rightarrow> Inl e),
      w @ [EvFileRead p])"

definition analyze_image ::
  "env \<Rightarrow> SatelliteInspector \<Rightarrow> world \<Rightarrow> string \<Rightarrow> (exn + string) \<times> world" where
  "analyze_image env self w image_path =
     (if \<not> os_path_exists env w image_path
      then (Inl (FileNotFoundError (''Image not found at '' @ image_path)), w)
      else (case open_read env w image_path of
              (Inl e, w') \<Rightarrow> (Inl e, w')
            | (Inr image_bytes, w') \<Rightarrow>
                (let image_part = FromData image_bytes ''image/jpeg''
                 in generate env self w' image_part)))"

subsection \<open>The web endpoints of the inspection service\<close>

record AnalysisRequest =
  gcs_uri :: string

datatype http_exception = HTTPException nat string

definition read_root :: json where
  "read_root =
     JDict [(''message'', JStr ''Satellite Inspector Tool is running.''),
            (''documentation'', JStr ''/docs''),
            (''openapi_schema'', JStr ''/openapi.json'')]"

text \<open>
  \<^verbatim>\<open>
  try:
      result_json_str = agent.analyze_from_uri(request.gcs_uri)
      result_data = json.loads(result_json_str)
      return result_data
  except Exception as e:
      raise HTTPException(status_code=500, detail=str(e))
  \<close>
  The two \<^verbatim>\<open>print\<close> calls only write to the log and are left out.
\<close>

definition analyze_endpoint ::
  "env \<Rightarrow> SatelliteInspector \<Rightarrow> world \<Rightarrow> AnalysisRequest \<Rightarrow> (http_exception + json) \<times> world" where
  "analyze_endpoint env agent w request =
     (case analyze_from_uri env agent w (gcs_uri request) ''image/jpeg'' of
        (Inl e, w') \<Rightarrow> (Inl (HTTPException 500 (str_exn e)), w')
      | (Inr result_json_str, w') \<Rightarrow>
          (case json_loads env result_json_str of
             Inl e \<Rightarrow> (Inl (HTTPException 500 (str_exn e)), w')
           | Inr result_data \<Rightarrow> (Inr result_data, w')))"

definition health_check :: json where
  "health_check = JDict [(''status'', JStr ''ok'')]"

text \<open>
  What the web framework makes of an endpoint's outcome. An \<^verbatim>\<open>HTTPException\<close> becomes
  a response with its status code and the body \<^verbatim>\<open>{"detail": ...}\<close>. The value returned by
  an endpoint declared with \<^verbatim>\<open>response_model=SatelliteAnalysis\<close> is validated against that
  class and serialised from it; when the validation fails the framework answers with its
  own status 500. An endpoint without a response model has its dict sent as it is.
\<close>

datatype html_block = Heading string | ResultDiv string string

datatype resp_body =
    JsonBody json
  | TextBody string
  | HtmlBody "html_block list"

record http_response =
  status_code :: nat
  body :: resp_body

definition respond_with_model :: "env \<Rightarrow> http_exception + json \<Rightarrow> http_response" where
  "respond_with_model env r =
     (case r of
        Inl (HTTPException code detail) \<Rightarrow>
          \<lparr>status_code = code, body = JsonBody (JDict [(''detail'', JStr detail)])\<rparr>
      | Inr data \<Rightarrow>
          (case SatelliteAnalysis_validate env data of
             Inl e \<Rightarrow> \<lparr>status_code = 500, body = TextBody ''Internal Server Error''\<rparr>
           | Inr a \<Rightarrow> \<lparr>status_code = 200, body = JsonBody (SatelliteAnalysis_dump a)\<rparr>))"

text \<open>
  The three routes that \<^verbatim>\<open>satellite_qa_agent/main.py\<close> registers:
  \<^verbatim>\<open>@app.get("/")\<close>, \<^verbatim>\<open>@app.post("/analyze", response_model=SatelliteAnalysis)\<close> with
  a body already parsed into an \<^verbatim>\<open>AnalysisRequest\<close>, and \<^verbatim>\<open>@app.get("/health")\<close>. The
  agent is the module's global object.
\<close>

datatype inspector_route = GetRoot | PostAnalyze AnalysisRequest | GetHealth

definition inspection_service ::
  "env \<Rightarrow> SatelliteInspector \<Rightarrow> world \<Rightarrow> inspector_route \<Rightarrow> http_response \<times> world" where
  "inspection_service env agent w route =
     (case route of
        GetRoot \<Rightarrow> (\<lparr>status_code = 200, body = JsonBody read_root\<rparr>, w)
      | PostAnalyze request \<Rightarrow>
          (case analyze_endpoint env agent w request of
             (r, w') \<Rightarrow> (respond_with_model env r, w'))
      | GetHealth \<Rightarrow> (\<lparr>status_code = 200, body = JsonBody health_check\<rparr>, w))"

section \<open>The upload front end\<close>

definition CLOUD_RUN_URL :: string where
  "CLOUD_RUN_URL = ''https://satellite-inspector-tool-90805393985.us-central1.run.app/analyze''"

definition GCS_BUCKET_NAME :: string where
  "GCS_BUCKET_NAME = ''your-unique-bucket-name''"

text \<open>
  An uploaded file as the handler uses it: its \<^verbatim>\<open>filename\<close>, the bytes of its
  \<^verbatim>\<open>stream\<close> and its \<^verbatim>\<open>content_type\<close>. A result is the dict appended to
  \<^verbatim>\<open>results\<close>.
\<close>

record FileStorage =
  filename :: string
  stream :: bytes
  content_type :: string

record result_entry =
  image_url :: string
  analysis :: string

text \<open>
  The calls of the loop body that leave the process. Each appends its event to the trace,
  whether it succeeds or raises. \<^verbatim>\<open>storage_client.bucket\<close> and \<^verbatim>\<open>bucket.blob\<close> only build
  local handles and \<^verbatim>\<open>requests.post\<close> returns normally for every status code: the code
  never looks at the status.
\<close>

definition uuid4 :: "env \<Rightarrow> world \<Rightarrow> string \<times> world" where
  "uuid4 env w = (let u = uuid4_draw env w in (u, w @ [EvUuid4 u]))"

definition upload_from_file ::
  "env \<Rightarrow> world \<Rightarrow> string \<Rightarrow> string \<Rightarrow> bytes \<Rightarrow> string \<Rightarrow> (exn + unit) \<times> world" where
  "upload_from_file env w bucket name data ctype =
     (gcs_upload env w bucket name data ctype, w @ [EvBlobUpload bucket name data ctype])"

definition make_public :: "env \<Rightarrow> world \<Rightarrow> string \<Rightarrow> string \<Rightarrow> (exn + unit) \<times> world" where
  "make_public env w bucket name =
     (gcs_make_public env w bucket name, w @ [EvMakePublic bucket name])"

definition requests_post ::
  "env \<Rightarrow> world \<Rightarrow> string \<Rightarrow> json \<Rightarrow> (exn + requests_response) \<times> world" where
  "requests_post env w url payload = (http_post env w url payload, w @ [EvHttpPost url payload])"

definition response_json :: "env \<Rightarrow> requests_response \<Rightarrow> exn + json" where
  "response_json env response = json_loads env (resp_text response)"

text \<open>
  The body of the \<^verbatim>\<open>for file in uploaded_files\<close> loop:
  \<^verbatim>\<open>
  filename = f"uploads/{uuid.uuid4()}-{file.filename}"
  blob = bucket.blob(filename)
  blob.upload_from_file(file.stream, content_type=file.content_type)
  blob.make_public()
  gcs_uri = f"gs://{GCS_BUCKET_NAME}/{filename}"
  response = requests.post(CLOUD_RUN_URL, json={"gcs_uri": gcs_uri})
  results.append({"image_url": blob.public_url,
                  "analysis": json.dumps(response.json(), indent=2)})
  \<close>
  It returns the appended entry, or the exception that left it.
\<close>

definition blob_name :: "string \<Rightarrow> FileStorage \<Rightarrow> string" where
  "blob_name u file = ''uploads/'' @ u @ ''-'' @ filename file"

definition process_file :: "env \<Rightarrow> world \<Rightarrow> FileStorage \<Rightarrow> (exn + result_entry) \<times> world" where
  "process_file env w file =
     (case uuid4 env w of
        (u, w1) \<Rightarrow>
          (let name = blob_name u file in
           case upload_from_file env w1 GCS_BUCKET_NAME name (stream file) (content_type file) of
             (Inl e, w2) \<Rightarrow> (Inl e, w2)
           | (Inr _, w2) \<Rightarrow>
               (case make_public env w2 GCS_BUCKET_NAME name of
                  (Inl e, w3) \<Rightarrow> (Inl e, w3)
                | (Inr _, w3) \<Rightarrow>
                    (let uri = ''gs://'' @ GCS_BUCKET_NAME @ ''/'' @ name in
                     case requests_post env w3 CLOUD_RUN_URL (JDict [(''gcs_uri'', JStr uri)]) of
                       (Inl e, w4) \<Rightarrow> (Inl e, w4)
                     | (Inr response, w4) \<Rightarrow>
                         (case response_json env response of
                            Inl e \<Rightarrow> (Inl e, w4)
                          | Inr j \<Rightarrow>
                              (Inr \<lparr>image_url = gcs_public_url env GCS_BUCKET_NAME name,
                                    analysis = json_dumps env j\<rparr>, w4))))))"

fun upload_loop ::
  "env \<Rightarrow> world \<Rightarrow> FileStorage list \<Rightarrow> result_entry list \<Rightarrow> (exn + result_entry list) \<times> world" where
  "upload_loop env w [] results = (Inr results, w)"
| "upload_loop env w (file # files) results =
     (case process_file env w file of
        (Inl e, w') \<Rightarrow> (Inl e, w')
      | (Inr r, w') \<Rightarrow> upload_loop env w' files (results @ [r]))"

text \<open>
  The results section of the page template:
  \<^verbatim>\<open>
  {% if results %}
      <h2>Analysis Results</h2>
      {% for result in results %}
          <div class="result">
              <img src="{{ result.image_url }}" alt="Satellite Image">
              <pre>{{ result.analysis }}</pre>
          </div>
      {% endfor %}
  {% endif %}
  \<close>
  The rest of the page is the same for every request and is left out.
\<close>

definition render_template_string :: "result_entry list \<Rightarrow> html_block list" where
  "render_template_string results =
     (if results = [] then []
      else Heading ''Analysis Results'' #
           map (\<lambda>result. ResultDiv (image_url result) (analysis result)) results)"

definition index :: "resp_body \<times> nat" where
  "index = (HtmlBody (render_template_string []), 200)"

text \<open>
  \<^verbatim>\<open>
  uploaded_files = request.files.getlist("files")
  results = []
  if not uploaded_files or uploaded_files[0].filename == '':
      return "No files selected", 400
  bucket = storage_client.bucket(GCS_BUCKET_NAME)
  for file in uploaded_files: ...
  return render_template_string(HTML_TEMPLATE, results=results)
  \<close>
  The handler returns a body and a status, or an exception leaves it.
\<close>

definition upload ::
  "env \<Rightarrow> world \<Rightarrow> FileStorage list \<Rightarrow> (exn + resp_body \<times> nat) \<times> world" where
  "upload env w uploaded_files =
     (case uploaded_files of
        [] \<Rightarrow> (Inr (TextBody ''No files selected'', 400), w)
      | first # _ \<Rightarrow>
          if filename first = '''' then (Inr (TextBody ''No files selected'', 400), w)
          else (case upload_loop env w uploaded_files [] of
                  (Inl e, w') \<Rightarrow> (Inl e, w')
                | (Inr results, w') \<Rightarrow>
                    (Inr (HtmlBody (render_template_string results), 200), w')))"

text \<open>
  The status that the web framework of the front end sends: the one the handler returned,
  or 500 when an exception left the handler.
\<close>

definition flask_status :: "exn + resp_body \<times> nat \<Rightarrow> nat" where
  "flask_status r = (case r of Inl e \<Rightarrow> 500 | Inr (b, code) \<Rightarrow> code)"

section \<open>Properties and concrete inputs\<close>

subsection \<open>Shapes of JSON values\<close>

definition is_bool :: "json \<Rightarrow> bool" where
  "is_bool j = (case j of JBool b \<Rightarrow> True | _ \<Rightarrow> False)"

definition is_number :: "json \<Rightarrow> bool" where
  "is_number j = (case j of JInt n \<Rightarrow> True | JFloat f \<Rightarrow> True | _ \<Rightarrow> False)"

definition is_finite_or_null :: "json \<Rightarrow> bool" where
  "is_finite_or_null j =
     (case j of
        JFloat f \<Rightarrow> (case f of Finite r \<Rightarrow> True | _ \<Rightarrow> False)
      | JNull \<Rightarrow> True
      | _ \<Rightarrow> False)"

definition is_str :: "json \<Rightarrow> bool" where
  "is_str j = (case j of JStr s \<Rightarrow> True | _ \<Rightarrow> False)"

text \<open>
  The shape of a successful response body: exactly the declared keys in the declared
  order, a boolean, a finite float or \<^verbatim>\<open>null\<close>, and a string.
\<close>

definition assessment_shape :: "json \<Rightarrow> bool" where
  "assessment_shape j =
     (case j of
        JDict kvs \<Rightarrow>
          map fst kvs = [''detected'', ''confidence'', ''reason''] \<and>
          list_all2 (\<lambda>p v. p v) [is_bool, is_finite_or_null, is_str] (map snd kvs)
      | _ \<Rightarrow> False)"

definition categories :: "string list" where
  "categories = [''has_clouds'', ''has_snow'', ''has_color_issues'', ''has_other_issues'']"

definition analysis_shape :: "json \<Rightarrow> bool" where
  "analysis_shape j =
     (case j of
        JDict kvs \<Rightarrow> map fst kvs = categories \<and> list_all assessment_shape (map snd kvs)
      | _ \<Rightarrow> False)"

definition body_is_analysis :: "resp_body \<Rightarrow> bool" where
  "body_is_analysis b = (case b of JsonBody j \<Rightarrow> analysis_shape j | _ \<Rightarrow> False)"

text \<open>The two conditions on an assessment that no code of the repository checks.\<close>

definition score_in_range :: "IssueAssessment \<Rightarrow> bool" where
  "score_in_range a =
     (case confidence a of Finite r \<Rightarrow> 0 \<le> r \<and> r \<le> 1 | _ \<Rightarrow> False)"

definition has_rationale :: "IssueAssessment \<Rightarrow> bool" where
  "has_rationale a = (reason a \<noteq> '''')"

text \<open>
  A fixture for the round trip: a dict in which each of the four categories is a dict
  holding a boolean \<^verbatim>\<open>detected\<close>, a number \<^verbatim>\<open>confidence\<close> and a string \<^verbatim>\<open>reason\<close>.
\<close>

definition field_of :: "json \<Rightarrow> string \<Rightarrow> string \<Rightarrow> json option" where
  "field_of j cat fld =
     (case j of
        JDict kvs \<Rightarrow> (case map_of kvs cat of Some (JDict fs) \<Rightarrow> map_of fs fld | _ \<Rightarrow> None)
      | _ \<Rightarrow> None)"

definition field_names :: "string list" where
  "field_names = [''detected'', ''confidence'', ''reason'']"

definition fixture_category :: "json \<Rightarrow> string \<Rightarrow> bool" where
  "fixture_category j cat =
     ((case field_of j cat ''detected'' of Some v \<Rightarrow> is_bool v | None \<Rightarrow> False) \<and>
      (case field_of j cat ''confidence'' of Some v \<Rightarrow> is_number v | None \<Rightarrow> False) \<and>
      (case field_of j cat ''reason'' of Some v \<Rightarrow> is_str v | None \<Rightarrow> False))"

definition fixture_ok :: "json \<Rightarrow> bool" where
  "fixture_ok j = list_all (fixture_category j) categories"

text \<open>
  A fixture that holds just the declared keys, in any order, and whose scores a double
  holds exactly: a finite float, or an integer of magnitude at most \<open>2 ^ 53\<close>.
\<close>

definition is_exact_number :: "json \<Rightarrow> bool" where
  "is_exact_number j =
     (case j of
        JFloat f \<Rightarrow> (case f of Finite r \<Rightarrow> True | _ \<Rightarrow> False)
      | JInt n \<Rightarrow> \<bar>n\<bar> \<le> 2 ^ 53
      | _ \<Rightarrow> False)"

definition exact_assessment :: "json \<Rightarrow> bool" where
  "exact_assessment v =
     (case v of
        JDict fs \<Rightarrow>
          set (map fst fs) = set field_names \<and>
          (case map_of fs ''detected'' of Some d \<Rightarrow> is_bool d | None \<Rightarrow> False) \<and>
          (case map_of fs ''confidence'' of Some c \<Rightarrow> is_exact_number c | None \<Rightarrow> False) \<and>
          (case map_of fs ''reason'' of Some r \<Rightarrow> is_str r | None \<Rightarrow> False)
      | _ \<Rightarrow> False)"

definition exact_fixture :: "json \<Rightarrow> bool" where
  "exact_fixture j =
     (case j of
        JDict kvs \<Rightarrow>
          set (map fst kvs) = set categories \<and>
          list_all (\<lambda>c. case map_of kvs c of Some v \<Rightarrow> exact_assessment v | None \<Rightarrow> False)
            categories
      | _ \<Rightarrow> False)"

subsection \<open>What a result entry has to do with its file\<close>

text \<open>
  An entry belongs to a file when its image URL is the public URL of a blob named after
  that file and its analysis is the formatted JSON that the inspection service sent back
  for that blob's URI.
\<close>

definition entry_of :: "env \<Rightarrow> FileStorage \<Rightarrow> result_entry \<Rightarrow> bool" where
  "entry_of env file r =
     (\<exists>u h response j.
        image_url r = gcs_public_url env GCS_BUCKET_NAME (blob_name u file) \<and>
        http_post env h CLOUD_RUN_URL
          (JDict [(''gcs_uri'', JStr (''gs://'' @ GCS_BUCKET_NAME @ ''/'' @ blob_name u file))])
          = Inr response \<and>
        json_loads env (resp_text response) = Inr j \<and>
        analysis r = json_dumps env j)"

definition all_calls_succeed :: "env \<Rightarrow> bool" where
  "all_calls_succeed env =
     ((\<forall>h b n d c. gcs_upload env h b n d c = Inr ()) \<and>
      (\<forall>h b n. gcs_make_public env h b n = Inr ()) \<and>
      (\<forall>h u p. \<exists>response j.
         http_post env h u p = Inr response \<and> json_loads env (resp_text response) = Inr j))"

subsection \<open>Concrete environments and inputs\<close>

definition demo_analysis :: SatelliteAnalysis where
  "demo_analysis =
     \<lparr>has_clouds =
        \<lparr>detected = True, confidence = Finite (7 / 8), reason = ''white opaque patches''\<rparr>,
      has_snow =
        \<lparr>detected = False, confidence = Finite (3 / 4), reason = ''no snow cover seen''\<rparr>,
      has_color_issues =
        \<lparr>detected = False, confidence = Finite (1 / 2), reason = ''natural colours''\<rparr>,
      has_other_issues =
        \<lparr>detected = False, confidence = Finite (5 / 8), reason = ''no voids or noise''\<rparr>\<rparr>"

definition demo_env :: env where
  "demo_env =
     \<lparr>fs_entry_at = (\<lambda>w p. if p = ''test_satellite.jpg'' then Readable ''JPEG'' else Missing),
      model_reply = (\<lambda>w r. Inr ''REPLY''),
      json_loads =
        (\<lambda>s. if s = ''REPLY'' then Inr (SatelliteAnalysis_dump demo_analysis)
             else Inl (Exception ''Expecting value: line 1 column 1 (char 0)'')),
      json_dumps = (\<lambda>j. if j = SatelliteAnalysis_dump demo_analysis then ''VERDICT'' else ''OTHER''),
      model_json_schema = (\<lambda>c. JDict [(''type'', JStr ''object'')]),
      lax_bool = (\<lambda>j. Inl (ValidationError ''Input should be a valid boolean'')),
      lax_float = (\<lambda>j. Inl (ValidationError ''Input should be a valid number'')),
      lax_str = (\<lambda>j. Inl (ValidationError ''Input should be a valid string'')),
      uuid4_draw = (\<lambda>w. if w = [] then ''u1'' else ''u2''),
      gcs_upload = (\<lambda>w b n d c. Inr ()),
      gcs_make_public = (\<lambda>w b n. Inr ()),
      gcs_public_url = (\<lambda>b n. ''https://storage.googleapis.com/'' @ b @ ''/'' @ n),
      http_post = (\<lambda>w u p. Inr \<lparr>resp_status = 200, resp_text = ''REPLY''\<rparr>)\<rparr>"

definition demo_agent :: SatelliteInspector where
  "demo_agent = SatelliteInspector_init ''demo-project'' ''us-central1''"

definition demo_request :: model_request where
  "demo_request =
     \<lparr>model_name = ''gemini-2.5-flash'',
      contents = [Text SYSTEM_INSTRUCTION, ImagePart (FromUri ''gs://b/i.jpg'' ''image/jpeg''),
                  Text ''Analyze this satellite image for issues.''],
      config = \<lparr>response_mime_type = ''application/json'',
                response_schema = JDict [(''type'', JStr ''object'')]\<rparr>,
      safety_settings =
        [\<lparr>category = ''HARM_CATEGORY_DANGEROUS_CONTENT'', threshold = ''BLOCK_ONLY_HIGH''\<rparr>]\<rparr>"

definition file_a :: FileStorage where
  "file_a = \<lparr>filename = ''a.jpg'', stream = ''AAAA'', content_type = ''image/jpeg''\<rparr>"

definition file_b :: FileStorage where
  "file_b = \<lparr>filename = ''b.jpg'', stream = ''BBBB'', content_type = ''image/jpeg''\<rparr>"

definition file_unselected :: FileStorage where
  "file_unselected =
     \<lparr>filename = '''', stream = '''', content_type = ''application/octet-stream''\<rparr>"

text \<open>
  The hosted model answers with a verdict whose cloud score is 7 and whose cloud
  rationale is empty, and whose snow score is \<^verbatim>\<open>NaN\<close>.
\<close>

definition odd_analysis :: SatelliteAnalysis where
  "odd_analysis =
     \<lparr>has_clouds = \<lparr>detected = True, confidence = Finite 7, reason = ''''\<rparr>,
      has_snow = \<lparr>detected = False, confidence = NaN, reason = ''no snow cover seen''\<rparr>,
      has_color_issues =
        \<lparr>detected = False, confidence = Finite (1 / 2), reason = ''natural colours''\<rparr>,
      has_other_issues =
        \<lparr>detected = False, confidence = Finite (5 / 8), reason = ''no voids or noise''\<rparr>\<rparr>"

definition odd_env :: env where
  "odd_env =
     demo_env\<lparr>json_loads :=
       (\<lambda>s. if s = ''REPLY'' then Inr (SatelliteAnalysis_as_dict odd_analysis)
            else Inl (Exception ''Expecting value: line 1 column 1 (char 0)''))\<rparr>"

text \<open>The hosted model answers with the empty JSON object.\<close>

definition empty_reply_env :: env where
  "empty_reply_env =
     demo_env\<lparr>
       model_reply := (\<lambda>w r. Inr ''{}''),
       json_loads :=
         (\<lambda>s. if s = ''{}'' then Inr (JDict [])
              else Inl (Exception ''Expecting value: line 1 column 1 (char 0)''))\<rparr>"

text \<open>
  The hosted model cannot fetch the image; and the hosted model answers with text that
  is not JSON.
\<close>

definition unreachable_env :: env where
  "unreachable_env =
     demo_env\<lparr>model_reply := (\<lambda>w r. Inl (Exception ''404 image not found''))\<rparr>"

definition garbled_env :: env where
  "garbled_env = demo_env\<lparr>model_reply := (\<lambda>w r. Inr ''not json'')\<rparr>"



text \<open>
  A fixture whose keys are not in the declared order, and whose scores include the
  integers 0 and 1.
\<close>

definition demo_fixture :: json where
  "demo_fixture =
     JDict [(''has_snow'', JDict [(''reason'', JStr ''none''), (''detected'', JBool False),
                                   (''confidence'', JInt 1)]),
            (''has_clouds'', JDict [(''detected'', JBool True),
                                     (''confidence'', JFloat (Finite (1 / 2))),
                                     (''reason'', JStr ''haze'')]),
            (''has_color_issues'', JDict [(''detected'', JBool False), (''confidence'', JInt 0),
                                           (''reason'', JStr ''fine'')]),
            (''has_other_issues'', JDict [(''detected'', JBool False), (''confidence'', JInt 1),
                                           (''reason'', JStr ''fine'')])]"

text \<open>
  A fixture whose cloud score is the integer \<open>2 ^ 53 + 1\<close>, which no double holds, and
  the object it validates to.
\<close>

definition big_score_fixture :: json where
  "big_score_fixture =
     JDict [(''has_clouds'', JDict [(''detected'', JBool True),
                                     (''confidence'', JInt 9007199254740993),
                                     (''reason'', JStr ''haze'')]),
            (''has_snow'', JDict [(''detected'', JBool False), (''confidence'', JInt 0),
                                   (''reason'', JStr ''none'')]),
            (''has_color_issues'', JDict [(''detected'', JBool False), (''confidence'', JInt 0),
                                           (''reason'', JStr ''fine'')]),
            (''has_other_issues'', JDict [(''detected'', JBool False), (''confidence'', JInt 0),
                                           (''reason'', JStr ''fine'')])]"

definition big_score_analysis :: SatelliteAnalysis where
  "big_score_analysis =
     \<lparr>has_clouds =
        \<lparr>detected = True, confidence = Finite 9007199254740992, reason = ''haze''\<rparr>,
      has_snow = \<lparr>detected = False, confidence = Finite 0, reason = ''none''\<rparr>,
      has_color_issues = \<lparr>detected = False, confidence = Finite 0, reason = ''fine''\<rparr>,
      has_other_issues = \<lparr>detected = False, confidence = Finite 0, reason = ''fine''\<rparr>\<rparr>"

section \<open>The inspection service: theorems\<close>

subsection \<open>The health endpoint\<close>

text \<open>
  Claim C8. Every GET request to the \<^verbatim>\<open>/health\<close> endpoint returns the same static OK
  payload \<^verbatim>\<open>{"status": "ok"}\<close>, whatever the environment answers and whatever calls
  were made before; the trace is left as it was.
\<close>

theorem health_check_static:
  "inspection_service env agent w GetHealth =
     (\<lparr>status_code = 200, body = JsonBody (JDict [(''status'', JStr ''ok'')])\<rparr>, w)"
  by (simp add: inspection_service_def health_check_def)

subsection \<open>A local image that does not exist\<close>

text \<open>
  Claim C9. When \<^verbatim>\<open>os.path.exists\<close> is false for the path, \<^verbatim>\<open>analyze_image\<close> raises
  \<^verbatim>\<open>FileNotFoundError\<close> with the message naming the path, and the trace it returns is
  the one it received: no file was read and no model call was issued.
\<close>

theorem analyze_image_missing_file:
  assumes "\<not> os_path_exists env w image_path"
  shows "analyze_image env self w image_path =
           (Inl (FileNotFoundError (''Image not found at '' @ image_path)), w)"
  using assms by (simp add: analyze_image_def)

theorem analyze_image_missing_file_witness:
  "\<not> os_path_exists demo_env [] ''nowhere.jpg'' \<and>
   analyze_image demo_env demo_agent [] ''nowhere.jpg'' =
     (Inl (FileNotFoundError ''Image not found at nowhere.jpg''), [])"
proof -
  have h: "\<not> os_path_exists demo_env [] ''nowhere.jpg''"
    by (simp add: os_path_exists_def demo_env_def)
  from analyze_image_missing_file [OF h, of demo_agent] h show ?thesis by simp
qed

subsection \<open>The request sent to the hosted model\<close>

text \<open>
  The generation step issues exactly one model call and returns what the model answers
  to it; the call carries the inspector's instruction, the image part and the fixed
  question, and the JSON configuration with the schema of the response class.
\<close>

lemma generate_sends:
  "\<exists>req. generate env self w img = (model_reply env w req, w @ [EvModelCall req]) \<and>
         contents req =
           [Text (system_instruction self), ImagePart img,
            Text ''Analyze this satellite image for issues.''] \<and>
         config req =
           \<lparr>response_mime_type = ''application/json'',
            response_schema = model_json_schema env SatelliteAnalysis_cls\<rparr>"
  by (simp add: generate_def Let_def)

lemma analyze_image_readable:
  assumes "fs_entry_at env w path = Readable b"
  shows "analyze_image env self w path =
           generate env self (w @ [EvFileRead path]) (FromData b ''image/jpeg'')"
  using assms by (simp add: analyze_image_def os_path_exists_def open_read_def)

text \<open>
  Claim C5. For an inspector built by its constructor, each invocation of the generation
  step, reached directly, through \<^verbatim>\<open>analyze_from_uri\<close> (remote URI) or through
  \<^verbatim>\<open>analyze_image\<close> on a readable file (local bytes), issues exactly one model call.
  That call carries the fixed instruction verbatim as its first content, then the image
  part of that entry point, then the fixed question, and a generation config whose mime
  type is JSON and whose response schema is the JSON schema of the
  \<^verbatim>\<open>SatelliteAnalysis\<close> class; the value returned is the model's answer to that call.
\<close>

theorem entry_points_send_fixed_prompt_and_schema:
  assumes "self = SatelliteInspector_init pid loc"
  shows
    "(\<exists>req. generate env self w img = (model_reply env w req, w @ [EvModelCall req]) \<and>
        contents req =
          [Text SYSTEM_INSTRUCTION, ImagePart img,
           Text ''Analyze this satellite image for issues.''] \<and>
        config req =
          \<lparr>response_mime_type = ''application/json'',
           response_schema = model_json_schema env SatelliteAnalysis_cls\<rparr>) \<and>
     (\<exists>req. analyze_from_uri env self w uri mime =
              (model_reply env w req, w @ [EvModelCall req]) \<and>
        contents req =
          [Text SYSTEM_INSTRUCTION, ImagePart (FromUri uri mime),
           Text ''Analyze this satellite image for issues.''] \<and>
        config req =
          \<lparr>response_mime_type = ''application/json'',
           response_schema = model_json_schema env SatelliteAnalysis_cls\<rparr>) \<and>
     (fs_entry_at env w path = Readable b \<longrightarrow>
        (\<exists>req. analyze_image env self w path =
                 (model_reply env (w @ [EvFileRead path]) req,
                  w @ [EvFileRead path, EvModelCall req]) \<and>
           contents req =
             [Text SYSTEM_INSTRUCTION, ImagePart (FromData b ''image/jpeg''),
              Text ''Analyze this satellite image for issues.''] \<and>
           config req =
             \<lparr>response_mime_type = ''application/json'',
              response_schema = model_json_schema env SatelliteAnalysis_cls\<rparr>))"
proof -
  have si: "system_instruction self = SYSTEM_INSTRUCTION"
    using assms by (simp add: SatelliteInspector_init_def)
  show ?thesis
  proof (intro conjI impI)
    show "\<exists>req. generate env self w img = (model_reply env w req, w @ [EvModelCall req]) \<and>
        contents req =
          [Text SYSTEM_INSTRUCTION, ImagePart img,
           Text ''Analyze this satellite image for issues.''] \<and>
        config req =
          \<lparr>response_mime_type = ''application/json'',
           response_schema = model_json_schema env SatelliteAnalysis_cls\<rparr>"
      using generate_sends [of env self w img] by (simp add: si)
  next
    show "\<exists>req. analyze_from_uri env self w uri mime =
              (model_reply env w req, w @ [EvModelCall req]) \<and>
        contents req =
          [Text SYSTEM_INSTRUCTION, ImagePart (FromUri uri mime),
           Text ''Analyze this satellite image for issues.''] \<and>
        config req =
          \<lparr>response_mime_type = ''application/json'',
           response_schema = model_json_schema env SatelliteAnalysis_cls\<rparr>"
      using generate_sends [of env self w "FromUri uri mime"]
      by (simp add: si analyze_from_uri_def)
  next
    assume r: "fs_entry_at env w path = Readable b"
    show "\<exists>req. analyze_image env self w path =
                 (model_reply env (w @ [EvFileRead path]) req,
                  w @ [EvFileRead path, EvModelCall req]) \<and>
           contents req =
             [Text SYSTEM_INSTRUCTION, ImagePart (FromData b ''image/jpeg''),
              Text ''Analyze this satellite image for issues.''] \<and>
           config req =
             \<lparr>response_mime_type = ''application/json'',
              response_schema = model_json_schema env SatelliteAnalysis_cls\<rparr>"
      using generate_sends [of env self "w @ [EvFileRead path]" "FromData b ''image/jpeg''"]
      by (simp add: si analyze_image_readable [OF r])
  qed
qed

theorem entry_points_send_fixed_prompt_and_schema_witness:
  "fs_entry_at demo_env [] ''test_satellite.jpg'' = Readable ''JPEG'' \<and>
   (\<exists>req. analyze_image demo_env demo_agent [] ''test_satellite.jpg'' =
            (model_reply demo_env ([] @ [EvFileRead ''test_satellite.jpg'']) req,
             [] @ [EvFileRead ''test_satellite.jpg'', EvModelCall req]) \<and>
      contents req =
        [Text SYSTEM_INSTRUCTION, ImagePart (FromData ''JPEG'' ''image/jpeg''),
         Text ''Analyze this satellite image for issues.''] \<and>
      config req =
        \<lparr>response_mime_type = ''application/json'',
         response_schema = model_json_schema demo_env SatelliteAnalysis_cls\<rparr>) \<and>
   (\<exists>req. analyze_from_uri demo_env demo_agent [] ''gs://b/i.jpg'' ''image/jpeg'' =
            (model_reply demo_env [] req, [] @ [EvModelCall req]) \<and>
      contents req =
        [Text SYSTEM_INSTRUCTION, ImagePart (FromUri ''gs://b/i.jpg'' ''image/jpeg''),
         Text ''Analyze this satellite image for issues.''] \<and>
      config req =
        \<lparr>response_mime_type = ''application/json'',
         response_schema = model_json_schema demo_env SatelliteAnalysis_cls\<rparr>) \<and>
   analyze_from_uri demo_env demo_agent [] ''gs://b/i.jpg'' ''image/jpeg'' =
     (Inr ''REPLY'', [EvModelCall demo_request])"
proof -
  have h: "fs_entry_at demo_env [] ''test_satellite.jpg'' = Readable ''JPEG''"
    by (simp add: demo_env_def)
  have ev: "analyze_from_uri demo_env demo_agent [] ''gs://b/i.jpg'' ''image/jpeg'' =
     (Inr ''REPLY'', [EvModelCall demo_request])"
    by (simp add: analyze_from_uri_def generate_def Let_def demo_request_def demo_agent_def
          SatelliteInspector_init_def demo_env_def)
  from entry_points_send_fixed_prompt_and_schema
         [of demo_agent "''demo-project''" "''us-central1''" demo_env "[]"
             "FromUri ''gs://b/i.jpg'' ''image/jpeg''" "''gs://b/i.jpg''" "''image/jpeg''"
             "''test_satellite.jpg''" "''JPEG''"]
       h ev
  show ?thesis by (simp add: demo_agent_def)
qed

subsection \<open>Validation and serialisation of the response model\<close>

text \<open>
  Integers of magnitude at most \<open>2 ^ 53\<close> convert to the double of the same value.
\<close>

lemma ulp_shift_small: "m < 2 ^ 53 \<Longrightarrow> ulp_shift m = 0"
  by (subst ulp_shift.simps) simp

lemma ulp_shift_step: "\<not> m < 2 ^ 53 \<Longrightarrow> ulp_shift m = Suc (ulp_shift (m div 2))"
  by (subst ulp_shift.simps) simp

lemma round_half_even_exact:
  assumes "m \<le> 2 ^ 53"
  shows "round_half_even m (ulp_shift m) = m"
proof (cases "m < 2 ^ 53")
  case True
  then show ?thesis by (simp add: ulp_shift_small round_half_even_def)
next
  case False
  with assms have "m = 2 ^ 53" by simp
  then show ?thesis
    by (simp add: ulp_shift_step ulp_shift_small round_half_even_def Let_def)
qed

lemma float_of_int_exact:
  assumes "\<bar>n\<bar> \<le> 2 ^ 53"
  shows "float_of_int n = Inr (Finite (of_int n))"
proof -
  define m where "m = nat \<bar>n\<bar>"
  have m: "m \<le> 2 ^ 53" using assms by (simp add: m_def nat_le_iff)
  have v: "round_half_even m (ulp_shift m) = m" by (rule round_half_even_exact [OF m])
  have "(2::nat) ^ 53 < 2 ^ 1024" by (rule power_strict_increasing) simp_all
  with m have lt: "\<not> (2::nat) ^ 1024 \<le> m" by (meson le_less_trans not_le)
  have r: "(if n < 0 then - real m else real m) = real_of_int n"
    by (simp add: m_def)
  have "float_of_int n =
      (if 2 ^ 1024 \<le> round_half_even m (ulp_shift m)
       then Inl (Exception ''int too large to convert to float'')
       else Inr (Finite (if n < 0 then - real (round_half_even m (ulp_shift m))
                         else real (round_half_even m (ulp_shift m)))))"
    by (simp only: float_of_int_def Let_def m_def)
  also have "\<dots> = Inr (Finite (if n < 0 then - real m else real m))"
    by (simp only: v lt if_False)
  finally show ?thesis by (simp only: r)
qed

text \<open>
  A dict whose three fields have the declared types validates to the object of these
  values, whatever the library's conversions are; the dict of an object validates back
  to that object, and its serialised form has the shape of the schema.
\<close>

lemma IssueAssessment_validate_typed:
  assumes "map_of fs ''detected'' = Some (JBool b)"
    and "map_of fs ''confidence'' = Some (JFloat x)"
    and "map_of fs ''reason'' = Some (JStr s)"
  shows "IssueAssessment_validate env (JDict fs) =
           Inr \<lparr>detected = b, confidence = x, reason = s\<rparr>"
  using assms
  by (simp add: IssueAssessment_validate_def validate_bool_def validate_float_def
        validate_str_def)

lemma IssueAssessment_validate_as_dict:
  "IssueAssessment_validate env (IssueAssessment_as_dict a) = Inr a"
  by (simp add: IssueAssessment_as_dict_def IssueAssessment_validate_typed)

lemma SatelliteAnalysis_validate_as_dict:
  "SatelliteAnalysis_validate env (SatelliteAnalysis_as_dict a) = Inr a"
  by (simp add: SatelliteAnalysis_as_dict_def SatelliteAnalysis_validate_def
        IssueAssessment_validate_as_dict)

lemma assessment_shape_dump: "assessment_shape (IssueAssessment_dump a)"
  by (cases "confidence a")
     (simp_all add: assessment_shape_def IssueAssessment_dump_def float_to_json_def
        is_bool_def is_finite_or_null_def is_str_def)

lemma analysis_shape_dump: "analysis_shape (SatelliteAnalysis_dump a)"
  by (simp add: analysis_shape_def SatelliteAnalysis_dump_def categories_def
        assessment_shape_dump)

subsection \<open>The analyze endpoint\<close>

text \<open>
  What the analyze route answers, by what the environment does: the model call raises;
  the model's text does not decode; the decoded value validates against the response
  model; it does not.
\<close>

lemma analyze_answer_model_raises:
  assumes "fst (analyze_from_uri env agent w (gcs_uri request) ''image/jpeg'') = Inl e"
  shows "fst (inspection_service env agent w (PostAnalyze request)) =
           \<lparr>status_code = 500, body = JsonBody (JDict [(''detail'', JStr (str_exn e))])\<rparr>"
  using assms
  by (cases "analyze_from_uri env agent w (gcs_uri request) ''image/jpeg''")
     (simp add: inspection_service_def analyze_endpoint_def respond_with_model_def)

lemma analyze_answer_decode_raises:
  assumes "fst (analyze_from_uri env agent w (gcs_uri request) ''image/jpeg'') = Inr s"
    and "json_loads env s = Inl e"
  shows "fst (inspection_service env agent w (PostAnalyze request)) =
           \<lparr>status_code = 500, body = JsonBody (JDict [(''detail'', JStr (str_exn e))])\<rparr>"
  using assms
  by (cases "analyze_from_uri env agent w (gcs_uri request) ''image/jpeg''")
     (simp add: inspection_service_def analyze_endpoint_def respond_with_model_def)

lemma analyze_answer_valid:
  assumes "fst (analyze_from_uri env agent w (gcs_uri request) ''image/jpeg'') = Inr s"
    and "json_loads env s = Inr j"
    and "SatelliteAnalysis_validate env j = Inr a"
  shows "fst (inspection_service env agent w (PostAnalyze request)) =
           \<lparr>status_code = 200, body = JsonBody (SatelliteAnalysis_dump a)\<rparr>"
  using assms
  by (cases "analyze_from_uri env agent w (gcs_uri request) ''image/jpeg''")
     (simp add: inspection_service_def analyze_endpoint_def respond_with_model_def)

lemma analyze_answer_invalid:
  assumes "fst (analyze_from_uri env agent w (gcs_uri request) ''image/jpeg'') = Inr s"
    and "json_loads env s = Inr j"
    and "SatelliteAnalysis_validate env j = Inl e"
  shows "fst (inspection_service env agent w (PostAnalyze request)) =
           \<lparr>status_code = 500, body = TextBody ''Internal Server Error''\<rparr>"
  using assms
  by (cases "analyze_from_uri env agent w (gcs_uri request) ''image/jpeg''")
     (simp add: inspection_service_def analyze_endpoint_def respond_with_model_def)

lemma analyze_answer_cases:
  "(\<exists>a. fst (inspection_service env agent w (PostAnalyze request)) =
          \<lparr>status_code = 200, body = JsonBody (SatelliteAnalysis_dump a)\<rparr>) \<or>
   (\<exists>m. fst (inspection_service env agent w (PostAnalyze request)) =
          \<lparr>status_code = 500, body = JsonBody (JDict [(''detail'', JStr m)])\<rparr>) \<or>
   fst (inspection_service env agent w (PostAnalyze request)) =
     \<lparr>status_code = 500, body = TextBody ''Internal Server Error''\<rparr>"
proof (cases "fst (analyze_from_uri env agent w (gcs_uri request) ''image/jpeg'')")
  case (Inl e)
  from analyze_answer_model_raises [OF this] show ?thesis by blast
next
  case (Inr s)
  show ?thesis
  proof (cases "json_loads env s")
    case (Inl e)
    from analyze_answer_decode_raises [OF Inr this] show ?thesis by blast
  next
    case j: (Inr j)
    show ?thesis
    proof (cases "SatelliteAnalysis_validate env j")
      case (Inl e)
      from analyze_answer_invalid [OF Inr j this] show ?thesis by blast
    next
      case a: (Inr a)
      from analyze_answer_valid [OF Inr j this] show ?thesis by blast
    qed
  qed
qed

text \<open>
  Claim C3, as the code has it. The analyze endpoint answers in one of three ways. An
  exception raised by the model invocation, or by \<^verbatim>\<open>json.loads\<close> on the model's text,
  is answered with status 500 and a \<^verbatim>\<open>detail\<close> that is \<^verbatim>\<open>str(e)\<close>, the raw error
  text. A reply that decodes to a value which validates against the response model is
  answered with status 200 and the complete serialised \<^verbatim>\<open>SatelliteAnalysis\<close>, all four
  assessments with all three fields. A reply that decodes to a value which does not
  validate is answered by the framework with status 500 and the fixed text
  \<^verbatim>\<open>Internal Server Error\<close>, without the error text. There is no other answer, so no
  partially filled result.
\<close>

theorem analyze_answers_three_ways:
  "(fst (analyze_from_uri env agent w (gcs_uri request) ''image/jpeg'') = Inl e \<longrightarrow>
      fst (inspection_service env agent w (PostAnalyze request)) =
        \<lparr>status_code = 500, body = JsonBody (JDict [(''detail'', JStr (str_exn e))])\<rparr>) \<and>
   (fst (analyze_from_uri env agent w (gcs_uri request) ''image/jpeg'') = Inr s \<and>
    json_loads env s = Inl e \<longrightarrow>
      fst (inspection_service env agent w (PostAnalyze request)) =
        \<lparr>status_code = 500, body = JsonBody (JDict [(''detail'', JStr (str_exn e))])\<rparr>) \<and>
   (fst (analyze_from_uri env agent w (gcs_uri request) ''image/jpeg'') = Inr s \<and>
    json_loads env s = Inr j \<and> SatelliteAnalysis_validate env j = Inr a \<longrightarrow>
      fst (inspection_service env agent w (PostAnalyze request)) =
        \<lparr>status_code = 200, body = JsonBody (SatelliteAnalysis_dump a)\<rparr> \<and>
      analysis_shape (SatelliteAnalysis_dump a)) \<and>
   (fst (analyze_from_uri env agent w (gcs_uri request) ''image/jpeg'') = Inr s \<and>
    json_loads env s = Inr j \<and> SatelliteAnalysis_validate env j = Inl e \<longrightarrow>
      fst (inspection_service env agent w (PostAnalyze request)) =
        \<lparr>status_code = 500, body = TextBody ''Internal Server Error''\<rparr>) \<and>
   ((\<exists>a'. fst (inspection_service env agent w (PostAnalyze request)) =
            \<lparr>status_code = 200, body = JsonBody (SatelliteAnalysis_dump a')\<rparr>) \<or>
    (\<exists>m. fst (inspection_service env agent w (PostAnalyze request)) =
           \<lparr>status_code = 500, body = JsonBody (JDict [(''detail'', JStr m)])\<rparr>) \<or>
    fst (inspection_service env agent w (PostAnalyze request)) =
      \<lparr>status_code = 500, body = TextBody ''Internal Server Error''\<rparr>)"
  using analyze_answer_model_raises [of env agent w request e]
    analyze_answer_decode_raises [of env agent w request s e]
    analyze_answer_valid [of env agent w request s j a]
    analyze_answer_invalid [of env agent w request s j e]
    analyze_answer_cases [of env agent w request]
    analysis_shape_dump [of a]
  by blast

theorem analyze_answers_three_ways_witness:
  "fst (analyze_from_uri unreachable_env demo_agent [] ''gs://b/gone.jpg'' ''image/jpeg'') =
     Inl (Exception ''404 image not found'') \<and>
   fst (inspection_service unreachable_env demo_agent [] (PostAnalyze \<lparr>gcs_uri = ''gs://b/gone.jpg''\<rparr>)) =
     \<lparr>status_code = 500, body = JsonBody (JDict [(''detail'', JStr ''404 image not found'')])\<rparr> \<and>
   fst (analyze_from_uri garbled_env demo_agent [] ''gs://b/i.jpg'' ''image/jpeg'') = Inr ''not json'' \<and>
   json_loads garbled_env ''not json'' = Inl (Exception ''Expecting value: line 1 column 1 (char 0)'') \<and>
   fst (inspection_service garbled_env demo_agent [] (PostAnalyze \<lparr>gcs_uri = ''gs://b/i.jpg''\<rparr>)) =
     \<lparr>status_code = 500,
      body = JsonBody (JDict [(''detail'', JStr ''Expecting value: line 1 column 1 (char 0)'')])\<rparr> \<and>
   fst (analyze_from_uri demo_env demo_agent [] ''gs://b/i.jpg'' ''image/jpeg'') = Inr ''REPLY'' \<and>
   json_loads demo_env ''REPLY'' = Inr (SatelliteAnalysis_dump demo_analysis) \<and>
   SatelliteAnalysis_validate demo_env (SatelliteAnalysis_dump demo_analysis) = Inr demo_analysis \<and>
   fst (inspection_service demo_env demo_agent [] (PostAnalyze \<lparr>gcs_uri = ''gs://b/i.jpg''\<rparr>)) =
     \<lparr>status_code = 200, body = JsonBody (SatelliteAnalysis_dump demo_analysis)\<rparr> \<and>
   fst (analyze_from_uri empty_reply_env demo_agent [] ''gs://b/i.jpg'' ''image/jpeg'') = Inr ''{}'' \<and>
   json_loads empty_reply_env ''{}'' = Inr (JDict []) \<and>
   SatelliteAnalysis_validate empty_reply_env (JDict []) = Inl field_required \<and>
   fst (inspection_service empty_reply_env demo_agent [] (PostAnalyze \<lparr>gcs_uri = ''gs://b/i.jpg''\<rparr>)) =
     \<lparr>status_code = 500, body = TextBody ''Internal Server Error''\<rparr>"
proof -
  have h1: "fst (analyze_from_uri unreachable_env demo_agent [] ''gs://b/gone.jpg'' ''image/jpeg'') =
     Inl (Exception ''404 image not found'')"
    by (simp add: analyze_from_uri_def generate_def Let_def unreachable_env_def demo_env_def)
  have h2: "fst (analyze_from_uri garbled_env demo_agent [] ''gs://b/i.jpg'' ''image/jpeg'') =
     Inr ''not json''"
    by (simp add: analyze_from_uri_def generate_def Let_def garbled_env_def demo_env_def)
  have h3: "json_loads garbled_env ''not json'' =
     Inl (Exception ''Expecting value: line 1 column 1 (char 0)'')"
    by (simp add: garbled_env_def demo_env_def)
  have h4: "fst (analyze_from_uri demo_env demo_agent [] ''gs://b/i.jpg'' ''image/jpeg'') =
     Inr ''REPLY''"
    by (simp add: analyze_from_uri_def generate_def Let_def demo_env_def)
  have h5: "json_loads demo_env ''REPLY'' = Inr (SatelliteAnalysis_dump demo_analysis)"
    by (simp add: demo_env_def)
  have h6: "SatelliteAnalysis_validate demo_env (SatelliteAnalysis_dump demo_analysis) =
     Inr demo_analysis"
    by (simp add: SatelliteAnalysis_dump_def IssueAssessment_dump_def float_to_json_def
          demo_analysis_def SatelliteAnalysis_validate_def IssueAssessment_validate_def
          validate_bool_def validate_float_def validate_str_def)
  have h7: "fst (analyze_from_uri empty_reply_env demo_agent [] ''gs://b/i.jpg'' ''image/jpeg'') =
     Inr ''{}''"
    by (simp add: analyze_from_uri_def generate_def Let_def empty_reply_env_def demo_env_def)
  have h8: "json_loads empty_reply_env ''{}'' = Inr (JDict [])"
    by (simp add: empty_reply_env_def demo_env_def)
  have h9: "SatelliteAnalysis_validate empty_reply_env (JDict []) = Inl field_required"
    by (simp add: SatelliteAnalysis_validate_def)
  from analyze_answers_three_ways
         [of unreachable_env demo_agent "[]" "\<lparr>gcs_uri = ''gs://b/gone.jpg''\<rparr>"
             "Exception ''404 image not found''"] h1
  have r1: "fst (inspection_service unreachable_env demo_agent []
              (PostAnalyze \<lparr>gcs_uri = ''gs://b/gone.jpg''\<rparr>)) =
     \<lparr>status_code = 500, body = JsonBody (JDict [(''detail'', JStr ''404 image not found'')])\<rparr>"
    by simp
  from analyze_answers_three_ways
         [of garbled_env demo_agent "[]" "\<lparr>gcs_uri = ''gs://b/i.jpg''\<rparr>"
             "Exception ''Expecting value: line 1 column 1 (char 0)''" "''not json''"] h2 h3
  have r2: "fst (inspection_service garbled_env demo_agent []
              (PostAnalyze \<lparr>gcs_uri = ''gs://b/i.jpg''\<rparr>)) =
     \<lparr>status_code = 500,
      body = JsonBody (JDict [(''detail'', JStr ''Expecting value: line 1 column 1 (char 0)'')])\<rparr>"
    by simp
  from analyze_answers_three_ways
         [of demo_env demo_agent "[]" "\<lparr>gcs_uri = ''gs://b/i.jpg''\<rparr>" _ "''REPLY''"
             "SatelliteAnalysis_dump demo_analysis" demo_analysis] h4 h5 h6
  have r3: "fst (inspection_service demo_env demo_agent []
              (PostAnalyze \<lparr>gcs_uri = ''gs://b/i.jpg''\<rparr>)) =
     \<lparr>status_code = 200, body = JsonBody (SatelliteAnalysis_dump demo_analysis)\<rparr>"
    by simp
  from analyze_answers_three_ways
         [of empty_reply_env demo_agent "[]" "\<lparr>gcs_uri = ''gs://b/i.jpg''\<rparr>" field_required
             "''{}''" "JDict []"] h7 h8 h9
  have r4: "fst (inspection_service empty_reply_env demo_agent []
              (PostAnalyze \<lparr>gcs_uri = ''gs://b/i.jpg''\<rparr>)) =
     \<lparr>status_code = 500, body = TextBody ''Internal Server Error''\<rparr>"
    by simp
  from h1 h2 h3 h4 h5 h6 h7 h8 h9 r1 r2 r3 r4 show ?thesis by blast
qed

text \<open>
  Claim C3 with its two-way split does not hold. The hosted model answers with the
  empty JSON object: nothing is raised by the model invocation or by \<^verbatim>\<open>json.loads\<close>,
  the endpoint returns the decoded value, and the answer is neither an analysis nor a
  status 500 that carries an error text.
\<close>

theorem empty_reply_gives_bare_500:
  "fst (analyze_endpoint empty_reply_env demo_agent [] \<lparr>gcs_uri = ''gs://b/i.jpg''\<rparr>) =
     Inr (JDict []) \<and>
   fst (inspection_service empty_reply_env demo_agent [] (PostAnalyze \<lparr>gcs_uri = ''gs://b/i.jpg''\<rparr>)) =
     \<lparr>status_code = 500, body = TextBody ''Internal Server Error''\<rparr>"
  by (simp add: inspection_service_def analyze_endpoint_def analyze_from_uri_def generate_def
        Let_def respond_with_model_def empty_reply_env_def demo_env_def
        SatelliteAnalysis_validate_def)

text \<open>
  Claim C2, as the code has it. On success (status 200) the body is a JSON object with
  exactly the four assessment keys, each an object with exactly a boolean
  \<^verbatim>\<open>detected\<close>, a \<^verbatim>\<open>confidence\<close> that is a finite number or \<^verbatim>\<open>null\<close> (a score of
  the model that is not finite is written as \<^verbatim>\<open>null\<close>), and a string \<^verbatim>\<open>reason\<close>.
  The types of the fields are all that is checked: whenever the model's reply decodes to
  the dict of an analysis, whatever its scores and its rationales, the endpoint answers
  with status 200 and that analysis.
\<close>

theorem analyze_success_shape_types_only:
  "(status_code (fst (inspection_service env agent w (PostAnalyze request))) = 200 \<longrightarrow>
      body_is_analysis (body (fst (inspection_service env agent w (PostAnalyze request))))) \<and>
   (fst (analyze_from_uri env agent w (gcs_uri request) ''image/jpeg'') = Inr s \<and>
    json_loads env s = Inr (SatelliteAnalysis_as_dict a) \<longrightarrow>
      fst (inspection_service env agent w (PostAnalyze request)) =
        \<lparr>status_code = 200, body = JsonBody (SatelliteAnalysis_dump a)\<rparr>)"
proof (intro conjI impI)
  assume "status_code (fst (inspection_service env agent w (PostAnalyze request))) = 200"
  with analyze_answer_cases [of env agent w request]
  show "body_is_analysis (body (fst (inspection_service env agent w (PostAnalyze request))))"
    by (auto simp: body_is_analysis_def analysis_shape_dump)
next
  assume "fst (analyze_from_uri env agent w (gcs_uri request) ''image/jpeg'') = Inr s \<and>
    json_loads env s = Inr (SatelliteAnalysis_as_dict a)"
  then show "fst (inspection_service env agent w (PostAnalyze request)) =
        \<lparr>status_code = 200, body = JsonBody (SatelliteAnalysis_dump a)\<rparr>"
    using analyze_answer_valid [of env agent w request s "SatelliteAnalysis_as_dict a" a]
    by (simp add: SatelliteAnalysis_validate_as_dict)
qed

theorem analyze_success_shape_types_only_witness:
  "status_code (fst (inspection_service demo_env demo_agent []
      (PostAnalyze \<lparr>gcs_uri = ''gs://b/i.jpg''\<rparr>))) = 200 \<and>
   body_is_analysis
     (body (fst (inspection_service demo_env demo_agent []
        (PostAnalyze \<lparr>gcs_uri = ''gs://b/i.jpg''\<rparr>)))) \<and>
   fst (analyze_from_uri demo_env demo_agent [] ''gs://b/i.jpg'' ''image/jpeg'') = Inr ''REPLY'' \<and>
   json_loads demo_env ''REPLY'' = Inr (SatelliteAnalysis_as_dict demo_analysis) \<and>
   fst (inspection_service demo_env demo_agent [] (PostAnalyze \<lparr>gcs_uri = ''gs://b/i.jpg''\<rparr>)) =
     \<lparr>status_code = 200, body = JsonBody (SatelliteAnalysis_dump demo_analysis)\<rparr>"
proof -
  have h1: "fst (analyze_from_uri demo_env demo_agent [] ''gs://b/i.jpg'' ''image/jpeg'') =
     Inr ''REPLY''"
    by (simp add: analyze_from_uri_def generate_def Let_def demo_env_def)
  have h2: "json_loads demo_env ''REPLY'' = Inr (SatelliteAnalysis_as_dict demo_analysis)"
    by (simp add: demo_env_def SatelliteAnalysis_dump_def SatelliteAnalysis_as_dict_def
          IssueAssessment_dump_def IssueAssessment_as_dict_def float_to_json_def
          demo_analysis_def)
  from analyze_success_shape_types_only
         [of demo_env demo_agent "[]" "\<lparr>gcs_uri = ''gs://b/i.jpg''\<rparr>" "''REPLY''"
             demo_analysis] h1 h2
  have r: "fst (inspection_service demo_env demo_agent []
             (PostAnalyze \<lparr>gcs_uri = ''gs://b/i.jpg''\<rparr>)) =
     \<lparr>status_code = 200, body = JsonBody (SatelliteAnalysis_dump demo_analysis)\<rparr>"
    by simp
  then have s: "status_code (fst (inspection_service demo_env demo_agent []
      (PostAnalyze \<lparr>gcs_uri = ''gs://b/i.jpg''\<rparr>))) = 200"
    by simp
  from analyze_success_shape_types_only
         [of demo_env demo_agent "[]" "\<lparr>gcs_uri = ''gs://b/i.jpg''\<rparr>" "''REPLY''"
             demo_analysis] s
  have "body_is_analysis
     (body (fst (inspection_service demo_env demo_agent []
        (PostAnalyze \<lparr>gcs_uri = ''gs://b/i.jpg''\<rparr>))))"
    by blast
  with h1 h2 r s show ?thesis by blast
qed

text \<open>
  Claim C2 with a score in the unit interval and a non-empty rationale does not hold.
  The hosted model answers with a verdict whose cloud score is 7, whose cloud rationale
  is the empty string and whose snow score is \<^verbatim>\<open>NaN\<close>. The endpoint answers with
  status 200: the cloud score in the body is 7, the cloud rationale is empty, and the
  snow score is \<^verbatim>\<open>null\<close>, not a number.
\<close>

theorem unchecked_score_and_rationale_pass:
  "fst (inspection_service odd_env demo_agent [] (PostAnalyze \<lparr>gcs_uri = ''gs://b/i.jpg''\<rparr>)) =
     \<lparr>status_code = 200, body = JsonBody (SatelliteAnalysis_dump odd_analysis)\<rparr> \<and>
   field_of (SatelliteAnalysis_dump odd_analysis) ''has_clouds'' ''confidence'' =
     Some (JFloat (Finite 7)) \<and>
   field_of (SatelliteAnalysis_dump odd_analysis) ''has_clouds'' ''reason'' = Some (JStr '''') \<and>
   field_of (SatelliteAnalysis_dump odd_analysis) ''has_snow'' ''confidence'' = Some JNull \<and>
   \<not> score_in_range (has_clouds odd_analysis) \<and>
   \<not> has_rationale (has_clouds odd_analysis) \<and>
   \<not> score_in_range (has_snow odd_analysis)"
proof -
  have "fst (inspection_service odd_env demo_agent [] (PostAnalyze \<lparr>gcs_uri = ''gs://b/i.jpg''\<rparr>)) =
     \<lparr>status_code = 200, body = JsonBody (SatelliteAnalysis_dump odd_analysis)\<rparr>"
    by (simp add: inspection_service_def analyze_endpoint_def analyze_from_uri_def generate_def
          Let_def respond_with_model_def odd_env_def demo_env_def
          SatelliteAnalysis_validate_as_dict)
  moreover have
    "field_of (SatelliteAnalysis_dump odd_analysis) ''has_clouds'' ''confidence'' =
       Some (JFloat (Finite 7))"
    "field_of (SatelliteAnalysis_dump odd_analysis) ''has_clouds'' ''reason'' = Some (JStr '''')"
    "field_of (SatelliteAnalysis_dump odd_analysis) ''has_snow'' ''confidence'' = Some JNull"
    by (simp_all add: field_of_def SatelliteAnalysis_dump_def IssueAssessment_dump_def
          float_to_json_def odd_analysis_def)
  moreover have "\<not> score_in_range (has_clouds odd_analysis)"
    "\<not> has_rationale (has_clouds odd_analysis)"
    "\<not> score_in_range (has_snow odd_analysis)"
    by (simp_all add: score_in_range_def has_rationale_def odd_analysis_def)
  ultimately show ?thesis by blast
qed

subsection \<open>Round trip through the response model\<close>

lemma exact_assessment_round_trip:
  assumes "exact_assessment v"
  obtains a r where "IssueAssessment_validate env v = Inr a"
    and "py_eq (IssueAssessment_dump a) v"
    and "confidence a = Finite r"
proof -
  from assms obtain fs where v: "v = JDict fs"
    and keys: "set (map fst fs) = set field_names"
    and d: "(case map_of fs ''detected'' of Some d \<Rightarrow> is_bool d | None \<Rightarrow> False)"
    and c: "(case map_of fs ''confidence'' of Some c \<Rightarrow> is_exact_number c | None \<Rightarrow> False)"
    and s: "(case map_of fs ''reason'' of Some r \<Rightarrow> is_str r | None \<Rightarrow> False)"
    by (cases v) (simp_all add: exact_assessment_def)
  from d obtain b where b: "map_of fs ''detected'' = Some (JBool b)"
    by (auto simp: is_bool_def split: option.splits json.splits)
  from s obtain t where t: "map_of fs ''reason'' = Some (JStr t)"
    by (auto simp: is_str_def split: option.splits json.splits)
  from c consider (float) r where "map_of fs ''confidence'' = Some (JFloat (Finite r))"
    | (int) n where "map_of fs ''confidence'' = Some (JInt n)" "\<bar>n\<bar> \<le> 2 ^ 53"
    by (auto simp: is_exact_number_def split: option.splits json.splits pyfloat.splits)
  then obtain r cj where cj: "map_of fs ''confidence'' = Some cj"
    and val: "validate_float env cj = Inr (Finite r)"
    and num: "num_of cj = Some (Finite r)"
  proof cases
    case (float r)
    then show ?thesis
      using that [of "JFloat (Finite r)" r] by (simp add: validate_float_def num_of_def)
  next
    case (int n)
    then show ?thesis
      using that [of "JInt n" "of_int n"]
      by (simp add: validate_float_def num_of_def float_of_int_exact)
  qed
  let ?a = "\<lparr>detected = b, confidence = Finite r, reason = t\<rparr>"
  have valid: "IssueAssessment_validate env v = Inr ?a"
    using b t cj val
    by (simp add: v IssueAssessment_validate_def validate_bool_def validate_str_def)
  have eq: "py_eq (IssueAssessment_dump ?a) v"
    using b t cj num keys
    by (cases cj)
       (auto simp: v IssueAssessment_dump_def float_to_json_def field_names_def num_of_def)
  from valid eq that [of ?a r] show thesis by simp
qed

lemma IssueAssessment_validate_dump_finite:
  assumes "confidence a = Finite r"
  shows "IssueAssessment_validate env (IssueAssessment_dump a) = Inr a"
  using assms
  by (simp add: IssueAssessment_dump_def float_to_json_def IssueAssessment_validate_def
        validate_bool_def validate_float_def validate_str_def)

text \<open>
  Claim C7, as the code has it. A JSON fixture that holds exactly the four categories,
  each holding exactly a boolean \<^verbatim>\<open>detected\<close>, a \<^verbatim>\<open>confidence\<close> that is a finite
  float or an integer of magnitude at most \<open>2 ^ 53\<close>, and a string \<^verbatim>\<open>reason\<close>, parses
  into a \<^verbatim>\<open>SatelliteAnalysis\<close> in every environment, so that no conversion of the
  library and no repair takes part; the serialised result equals the fixture by Python's
  \<^verbatim>\<open>==\<close>; and parsing the serialised result gives the same object again.
\<close>

theorem exact_fixture_round_trip:
  assumes "exact_fixture j"
  shows "\<exists>a. SatelliteAnalysis_validate env j = Inr a \<and>
             py_eq (SatelliteAnalysis_dump a) j \<and>
             SatelliteAnalysis_validate env (SatelliteAnalysis_dump a) = Inr a"
proof -
  from assms obtain kvs where j: "j = JDict kvs"
    and keys: "set (map fst kvs) = set categories"
    and cats: "list_all (\<lambda>c. case map_of kvs c of Some v \<Rightarrow> exact_assessment v | None \<Rightarrow> False)
                 categories"
    by (cases j) (simp_all add: exact_fixture_def)
  from cats obtain v1 v2 v3 v4 where
    m: "map_of kvs ''has_clouds'' = Some v1" "map_of kvs ''has_snow'' = Some v2"
       "map_of kvs ''has_color_issues'' = Some v3" "map_of kvs ''has_other_issues'' = Some v4"
    and e: "exact_assessment v1" "exact_assessment v2" "exact_assessment v3"
       "exact_assessment v4"
    by (auto simp: categories_def split: option.splits)
  from e(1) obtain a1 r1 where a1: "IssueAssessment_validate env v1 = Inr a1"
    "py_eq (IssueAssessment_dump a1) v1" "confidence a1 = Finite r1"
    by (rule exact_assessment_round_trip)
  from e(2) obtain a2 r2 where a2: "IssueAssessment_validate env v2 = Inr a2"
    "py_eq (IssueAssessment_dump a2) v2" "confidence a2 = Finite r2"
    by (rule exact_assessment_round_trip)
  from e(3) obtain a3 r3 where a3: "IssueAssessment_validate env v3 = Inr a3"
    "py_eq (IssueAssessment_dump a3) v3" "confidence a3 = Finite r3"
    by (rule exact_assessment_round_trip)
  from e(4) obtain a4 r4 where a4: "IssueAssessment_validate env v4 = Inr a4"
    "py_eq (IssueAssessment_dump a4) v4" "confidence a4 = Finite r4"
    by (rule exact_assessment_round_trip)
  let ?a = "\<lparr>has_clouds = a1, has_snow = a2, has_color_issues = a3, has_other_issues = a4\<rparr>"
  have valid: "SatelliteAnalysis_validate env j = Inr ?a"
    by (simp add: j SatelliteAnalysis_validate_def m a1(1) a2(1) a3(1) a4(1))
  have eq: "py_eq (SatelliteAnalysis_dump ?a) j"
    using keys m a1(2) a2(2) a3(2) a4(2)
    by (auto simp: j SatelliteAnalysis_dump_def categories_def)
  have again: "SatelliteAnalysis_validate env (SatelliteAnalysis_dump ?a) = Inr ?a"
    by (simp add: SatelliteAnalysis_dump_def SatelliteAnalysis_validate_def
          IssueAssessment_validate_dump_finite [OF a1(3)]
          IssueAssessment_validate_dump_finite [OF a2(3)]
          IssueAssessment_validate_dump_finite [OF a3(3)]
          IssueAssessment_validate_dump_finite [OF a4(3)])
  from valid eq again show ?thesis by blast
qed

theorem exact_fixture_round_trip_witness:
  "exact_fixture demo_fixture \<and>
   (\<exists>a. SatelliteAnalysis_validate demo_env demo_fixture = Inr a \<and>
        py_eq (SatelliteAnalysis_dump a) demo_fixture \<and>
        SatelliteAnalysis_validate demo_env (SatelliteAnalysis_dump a) = Inr a)"
proof -
  have h: "exact_fixture demo_fixture"
    by (auto simp: exact_fixture_def exact_assessment_def categories_def field_names_def
          demo_fixture_def is_bool_def is_exact_number_def is_str_def)
  from exact_fixture_round_trip [OF h, of demo_env] h show ?thesis by blast
qed

text \<open>
  Claim C7 for every number does not hold. The fixture has all four categories with a
  boolean, a number and a string, and its cloud score is the integer \<open>2 ^ 53 + 1\<close>. It
  parses, the score becomes the double \<open>2 ^ 53\<close>, and the serialised result is not equal
  to the fixture.
\<close>

theorem big_integer_score_is_altered:
  "fixture_ok big_score_fixture \<and>
   SatelliteAnalysis_validate demo_env big_score_fixture = Inr big_score_analysis \<and>
   field_of big_score_fixture ''has_clouds'' ''confidence'' = Some (JInt 9007199254740993) \<and>
   field_of (SatelliteAnalysis_dump big_score_analysis) ''has_clouds'' ''confidence'' =
     Some (JFloat (Finite 9007199254740992)) \<and>
   \<not> py_eq (SatelliteAnalysis_dump big_score_analysis) big_score_fixture"
proof -
  have f0: "float_of_int 0 = Inr (Finite 0)"
    using float_of_int_exact [of 0] by simp
  have f1: "float_of_int 9007199254740993 = Inr (Finite 9007199254740992)"
    by (simp add: float_of_int_def round_half_even_def Let_def ulp_shift_step ulp_shift_small)
  have "fixture_ok big_score_fixture"
    by (simp add: fixture_ok_def categories_def fixture_category_def field_of_def
          big_score_fixture_def is_bool_def is_number_def is_str_def)
  moreover have "SatelliteAnalysis_validate demo_env big_score_fixture = Inr big_score_analysis"
    by (simp add: big_score_fixture_def big_score_analysis_def SatelliteAnalysis_validate_def
          IssueAssessment_validate_def validate_bool_def validate_float_def validate_str_def
          f0 f1)
  moreover have
    "field_of big_score_fixture ''has_clouds'' ''confidence'' = Some (JInt 9007199254740993)"
    "field_of (SatelliteAnalysis_dump big_score_analysis) ''has_clouds'' ''confidence'' =
       Some (JFloat (Finite 9007199254740992))"
    by (simp_all add: field_of_def big_score_fixture_def big_score_analysis_def
          SatelliteAnalysis_dump_def IssueAssessment_dump_def float_to_json_def)
  moreover have "\<not> py_eq (SatelliteAnalysis_dump big_score_analysis) big_score_fixture"
    by (simp add: big_score_fixture_def big_score_analysis_def SatelliteAnalysis_dump_def
          IssueAssessment_dump_def float_to_json_def num_of_def)
  ultimately show ?thesis by blast
qed

section \<open>The upload front end: theorems\<close>

subsection \<open>The missing-input check\<close>

text \<open>
  Claim C4. When the submitted list is empty, or no entry of it has a filename (no file
  was selected), the handler returns the text \<^verbatim>\<open>No files selected\<close> with status 400, a
  client error and not a server error, and issues no call.
\<close>

theorem upload_nothing_selected:
  assumes "uploaded_files = [] \<or> (\<forall>f \<in> set uploaded_files. filename f = '''')"
  shows "upload env w uploaded_files = (Inr (TextBody ''No files selected'', 400), w) \<and>
         flask_status (fst (upload env w uploaded_files)) = 400"
  using assms by (cases uploaded_files) (auto simp: upload_def flask_status_def)

theorem upload_nothing_selected_witness:
  "upload demo_env [] [] = (Inr (TextBody ''No files selected'', 400), []) \<and>
   flask_status (fst (upload demo_env [] [])) = 400 \<and>
   filename file_unselected = '''' \<and>
   upload demo_env [] [file_unselected] = (Inr (TextBody ''No files selected'', 400), []) \<and>
   flask_status (fst (upload demo_env [] [file_unselected])) = 400"
proof -
  have h: "\<forall>f \<in> set [file_unselected]. filename f = ''''"
    by (simp add: file_unselected_def)
  from upload_nothing_selected [of "[]" demo_env "[]"]
       upload_nothing_selected [of "[file_unselected]" demo_env "[]"] h
  show ?thesis by (simp add: flask_status_def)
qed

text \<open>
  Claim C10. The missing-input check looks at the first file only. A list whose first
  file has an empty filename is rejected with status 400 whatever the later files are; a
  list whose first file has a filename is never answered with that rejection, whatever the
  later filenames are: its status is 200, or 500 when an exception leaves the loop.
\<close>

theorem first_file_decides_rejection:
  "(filename first = '''' \<longrightarrow>
      upload env w (first # rest) = (Inr (TextBody ''No files selected'', 400), w)) \<and>
   (filename first \<noteq> '''' \<longrightarrow>
      fst (upload env w (first # rest)) \<noteq> Inr (TextBody ''No files selected'', 400) \<and>
      flask_status (fst (upload env w (first # rest))) \<in> {200, 500})"
  by (auto simp: upload_def flask_status_def split: prod.splits sum.splits)

theorem first_file_decides_rejection_witness:
  "filename file_unselected = '''' \<and> filename file_a \<noteq> '''' \<and>
   upload demo_env [] [file_unselected, file_a] = (Inr (TextBody ''No files selected'', 400), []) \<and>
   fst (upload demo_env [] [file_a, file_unselected]) \<noteq> Inr (TextBody ''No files selected'', 400) \<and>
   flask_status (fst (upload demo_env [] [file_a, file_unselected])) \<in> {200, 500}"
proof -
  have h1: "filename file_unselected = ''''" by (simp add: file_unselected_def)
  have h2: "filename file_a \<noteq> ''''" by (simp add: file_a_def)
  from first_file_decides_rejection [of file_unselected demo_env "[]" "[file_a]"]
       first_file_decides_rejection [of file_a demo_env "[]" "[file_unselected]"] h1 h2
  show ?thesis by blast
qed

subsection \<open>One result entry per file\<close>

lemma process_file_succeeds:
  assumes "all_calls_succeed env"
  shows "\<exists>r w'. process_file env w file = (Inr r, w') \<and> entry_of env file r"
proof -
  define u where "u = uuid4_draw env w"
  define name where "name = blob_name u file"
  define w3 where
    "w3 = w @ [EvUuid4 u] @ [EvBlobUpload GCS_BUCKET_NAME name (stream file) (content_type file)]
            @ [EvMakePublic GCS_BUCKET_NAME name]"
  define payload where
    "payload = JDict [(''gcs_uri'', JStr (''gs://'' @ GCS_BUCKET_NAME @ ''/'' @ name))]"
  from assms obtain response j where
    post: "http_post env w3 CLOUD_RUN_URL payload = Inr response" and
    js: "json_loads env (resp_text response) = Inr j"
    unfolding all_calls_succeed_def by blast
  from assms have up: "\<And>h b n d c. gcs_upload env h b n d c = Inr ()"
    and mp: "\<And>h b n. gcs_make_public env h b n = Inr ()"
    unfolding all_calls_succeed_def by blast+
  let ?r = "\<lparr>image_url = gcs_public_url env GCS_BUCKET_NAME name, analysis = json_dumps env j\<rparr>"
  have "process_file env w file = (Inr ?r, w3 @ [EvHttpPost CLOUD_RUN_URL payload])"
    using post js
    by (simp add: process_file_def uuid4_def upload_from_file_def make_public_def
          requests_post_def response_json_def Let_def up mp
          u_def [symmetric] name_def [symmetric] w3_def payload_def)
  moreover have "entry_of env file ?r"
    unfolding entry_of_def using post js by (auto simp: name_def payload_def)
  ultimately show ?thesis by blast
qed

lemma upload_loop_succeeds:
  assumes "all_calls_succeed env"
  shows "\<exists>rs w'. upload_loop env w files acc = (Inr (acc @ rs), w') \<and>
                  list_all2 (entry_of env) files rs"
proof (induction files arbitrary: w acc)
  case Nil
  show ?case by simp
next
  case (Cons x xs)
  from process_file_succeeds [OF assms] obtain r w1 where
    pf: "process_file env w x = (Inr r, w1)" and e: "entry_of env x r" by blast
  from Cons.IH [of w1 "acc @ [r]"] obtain rs w' where
    "upload_loop env w1 xs (acc @ [r]) = (Inr ((acc @ [r]) @ rs), w')"
    "list_all2 (entry_of env) xs rs" by blast
  with pf e have "upload_loop env w (x # xs) acc = (Inr (acc @ (r # rs)), w') \<and>
      list_all2 (entry_of env) (x # xs) (r # rs)" by simp
  then show ?case by blast
qed

text \<open>
  Claim C1. For a request with N files, N at least 1 and the first filename not empty, in
  an environment where every storage write, every make-public call and every POST returns
  and every reply body decodes as JSON, the handler answers with status 200 and a page
  whose result blocks are, in order, one per submitted file: the i-th block shows the
  entry that belongs to the i-th file.
\<close>

theorem upload_one_entry_per_file_in_order:
  assumes "uploaded_files = first # rest"
    and "filename first \<noteq> ''''"
    and "all_calls_succeed env"
  shows "\<exists>results w'.
           upload env w uploaded_files =
             (Inr (HtmlBody (Heading ''Analysis Results'' #
                     map (\<lambda>r. ResultDiv (image_url r) (analysis r)) results), 200), w') \<and>
           length results = length uploaded_files \<and>
           list_all2 (entry_of env) uploaded_files results"
proof -
  from upload_loop_succeeds [OF assms(3), of w uploaded_files "[]"] obtain rs w' where
    loop: "upload_loop env w uploaded_files [] = (Inr rs, w')" and
    rel: "list_all2 (entry_of env) uploaded_files rs" by auto
  from rel have len: "length rs = length uploaded_files"
    by (simp add: list_all2_lengthD)
  with assms(1) have "rs \<noteq> []" by auto
  with loop assms(1,2) have
    "upload env w uploaded_files =
       (Inr (HtmlBody (Heading ''Analysis Results'' #
               map (\<lambda>r. ResultDiv (image_url r) (analysis r)) rs), 200), w')"
    by (simp add: upload_def render_template_string_def)
  with len rel show ?thesis by blast
qed

theorem upload_one_entry_per_file_in_order_witness:
  "filename file_a \<noteq> '''' \<and> all_calls_succeed demo_env \<and>
   (\<exists>results w'.
      upload demo_env [] [file_a, file_b] =
        (Inr (HtmlBody (Heading ''Analysis Results'' #
                map (\<lambda>r. ResultDiv (image_url r) (analysis r)) results), 200), w') \<and>
      length results = length [file_a, file_b] \<and>
      list_all2 (entry_of demo_env) [file_a, file_b] results) \<and>
   fst (upload demo_env [] [file_a, file_b]) =
     Inr (HtmlBody
           [Heading ''Analysis Results'',
            ResultDiv ''https://storage.googleapis.com/your-unique-bucket-name/uploads/u1-a.jpg''
              ''VERDICT'',
            ResultDiv ''https://storage.googleapis.com/your-unique-bucket-name/uploads/u2-b.jpg''
              ''VERDICT''], 200)"
proof -
  have h1: "filename file_a \<noteq> ''''" by (simp add: file_a_def)
  have h2: "all_calls_succeed demo_env"
    by (simp add: all_calls_succeed_def demo_env_def)
  have ev: "fst (upload demo_env [] [file_a, file_b]) =
     Inr (HtmlBody
           [Heading ''Analysis Results'',
            ResultDiv ''https://storage.googleapis.com/your-unique-bucket-name/uploads/u1-a.jpg''
              ''VERDICT'',
            ResultDiv ''https://storage.googleapis.com/your-unique-bucket-name/uploads/u2-b.jpg''
              ''VERDICT''], 200)"
    by (simp add: upload_def process_file_def uuid4_def upload_from_file_def make_public_def
          requests_post_def response_json_def Let_def render_template_string_def blob_name_def
          GCS_BUCKET_NAME_def demo_env_def file_a_def file_b_def)
  from upload_one_entry_per_file_in_order [where rest = "[file_b]" and w = "[]", OF refl h1 h2]
       h1 h2 ev
  show ?thesis by blast
qed

subsection \<open>The loop is sequential and stops at the first exception\<close>


lemma process_file_error_sources:
  assumes "process_file env w f = (Inl e, w')"
  shows "(\<exists>h b n d c. gcs_upload env h b n d c = Inl e) \<or>
         (\<exists>h b n. gcs_make_public env h b n = Inl e) \<or>
         (\<exists>h u p. http_post env h u p = Inl e) \<or>
         (\<exists>s. json_loads env s = Inl e)"
  using assms
  by (auto simp: process_file_def uuid4_def upload_from_file_def make_public_def
        requests_post_def response_json_def Let_def split: sum.splits)




end
